theory Spec2Isabelle
  imports Main
begin

section \<open>Values of the Go program\<close>

text \<open>
  A Go \<^verbatim>\<open>string\<close> is a sequence of bytes, and so is a \<open>string\<close> of HOL (a \<open>char\<close> is
  eight bits). A Go \<^verbatim>\<open>[]byte\<close> is either the nil slice or a slice holding bytes; the two
  are told apart by \<^verbatim>\<open>== nil\<close>, which \<^verbatim>\<open>RederiveAuthPair\<close> uses, so the model keeps them
  apart: \<open>None\<close> is the nil slice, \<open>Some bs\<close> a non-nil slice with the bytes \<open>bs\<close>
  (\<open>Some []\<close> is the empty, non-nil slice \<^verbatim>\<open>[]byte{}\<close>).
\<close>

type_synonym bytes = "string option"

text \<open>The conversion \<^verbatim>\<open>string(b)\<close> of a slice; the nil slice converts to the empty string.\<close>

definition string_of :: "bytes \<Rightarrow> string" where
  "string_of b = (case b of None \<Rightarrow> [] | Some bs \<Rightarrow> bs)"

text \<open>The conversion \<^verbatim>\<open>[]byte(s)\<close> of a string: always a non-nil slice.\<close>

abbreviation bytes_of :: "string \<Rightarrow> bytes" where
  "bytes_of s \<equiv> Some s"

text \<open>
  Error values. \<open>errors_New msg\<close> is \<^verbatim>\<open>errors.New(msg)\<close>; the other two stand for the
  error values that memguard and the box functions hand back, which the code passes
  on as they are.
\<close>

datatype error = errors_New string | memguard_error string | box_error string

text \<open>A run-time panic of the Go program: an index \<open>i\<close> outside a slice of length \<open>n\<close>.\<close>

datatype panic = index_out_of_range nat nat

datatype 'a outcome = Returns 'a | Panics panic

text \<open>Indexing a slice, \<^verbatim>\<open>xs[i]\<close>, with Go's bounds check.\<close>

definition index :: "'a list \<Rightarrow> nat \<Rightarrow> 'a outcome" where
  "index xs i = (if i < length xs then Returns (xs ! i) else Panics (index_out_of_range i (length xs)))"

text \<open>
  \<^verbatim>\<open>strings.Split(s, sep)\<close> of the Go library for a separator of one byte, which is how
  the code calls it (\<^verbatim>\<open>":"\<close>): the pieces of \<open>s\<close> between the occurrences of \<open>sep\<close>, all
  of them; a string without the separator gives the one piece \<open>s\<close>.
\<close>

fun strings_Split :: "string \<Rightarrow> char \<Rightarrow> string list" where
  "strings_Split [] sep = [[]]"
| "strings_Split (c # s) sep =
     (if c = sep then [] # strings_Split s sep
      else (case strings_Split s sep of [] \<Rightarrow> [[c]] | x # xs \<Rightarrow> (c # x) # xs))"

section \<open>The primitives the package calls\<close>

text \<open>
  memguard and the two box functions are not part of \<^verbatim>\<open>field.go\<close>; they are parameters
  of the model, with the signatures the calls have. \<open>'h\<close> is the type of enclaves
  and \<open>'b\<close> the type of locked buffers. A pointer \<^verbatim>\<open>*memguard.Enclave\<close> is an
  \<open>'h option\<close>, \<open>None\<close> being the nil pointer (the value of the fields of a \<^verbatim>\<open>Field\<close>
  that was only declared). Locked buffers are only handed from one memguard call to the
  next. Every call is taken to return.

  \<^item> \<open>Enclave_Open\<close>: \<^verbatim>\<open>(*Enclave).Open() (*LockedBuffer, error)\<close>
  \<^item> \<open>LockedBuffer_Bytes\<close>: \<^verbatim>\<open>(*LockedBuffer).Bytes() []byte\<close>
  \<^item> \<open>NewBufferFromBytes\<close>: \<^verbatim>\<open>memguard.NewBufferFromBytes([]byte) *LockedBuffer\<close>
  \<^item> \<open>LockedBuffer_Seal\<close>: \<^verbatim>\<open>(*LockedBuffer).Seal() *Enclave\<close>
  \<^item> \<open>BoxEncrypt\<close>, \<open>BoxDecrypt\<close>: \<^verbatim>\<open>func(key []byte, text []byte) ([]byte, error)\<close>
\<close>

record ('h, 'b) prims =
  Enclave_Open :: "'h option \<Rightarrow> error + 'b"
  LockedBuffer_Bytes :: "'b \<Rightarrow> bytes"
  NewBufferFromBytes :: "bytes \<Rightarrow> 'b"
  LockedBuffer_Seal :: "'b \<Rightarrow> 'h option"
  BoxEncrypt :: "bytes \<Rightarrow> bytes \<Rightarrow> error + bytes"
  BoxDecrypt :: "bytes \<Rightarrow> bytes \<Rightarrow> error + bytes"

section \<open>The Field\<close>

text \<open>
  \<^verbatim>\<open>DeniablePairs\<close> is a \<^verbatim>\<open>[][]byte\<close> that the code only ever appends to, so the nil
  slice and the empty slice are both the empty list.
\<close>

record 'h Field =
  Username :: "'h option"
  Pwd :: "'h option"
  AuthPair :: bytes
  DeniablePairs :: "bytes list"

text \<open>
  \<^verbatim>\<open>NewField\<close> returns the pair \<^verbatim>\<open>(*Field, error)\<close>: the pointer is \<open>None\<close> for \<^verbatim>\<open>nil\<close>, the
  error is \<open>None\<close> for \<^verbatim>\<open>nil\<close>.
\<close>

definition NewField ::
  "('h, 'b) prims \<Rightarrow> bytes \<Rightarrow> string \<Rightarrow> 'h option \<Rightarrow> 'h Field option \<times> error option" where
  "NewField P key username pwd =
     (case Enclave_Open P pwd of
        Inl err \<Rightarrow> (None, Some err)
      | Inr clearpwd \<Rightarrow>
          (let secretstr = username @ '':'' @ string_of (LockedBuffer_Bytes P clearpwd) in
           case BoxEncrypt P key (bytes_of secretstr) of
             Inl err \<Rightarrow> (None, Some err)
           | Inr secret \<Rightarrow>
               (let user_enclave = NewBufferFromBytes P (bytes_of username) in
                (Some \<lparr>Username = LockedBuffer_Seal P user_enclave,
                       Pwd = pwd,
                       AuthPair = secret,
                       DeniablePairs = []\<rparr>, None))))"

text \<open>
  \<^verbatim>\<open>RederiveAuthPair\<close> works on the field behind its receiver and returns an error: the
  model returns the field as the call leaves it, and what the call does (it returns an
  error, it returns \<^verbatim>\<open>nil\<close>, or it panics).
\<close>

definition RederiveAuthPair ::
  "('h, 'b) prims \<Rightarrow> bytes \<Rightarrow> 'h Field \<Rightarrow> 'h Field \<times> error option outcome" where
  "RederiveAuthPair P key f =
     (if AuthPair f = None then (f, Returns (Some (errors_New ''No secret in field'')))
      else
        (case BoxDecrypt P key (AuthPair f) of
           Inl err \<Rightarrow> (f, Returns (Some err))
         | Inr plaintext \<Rightarrow>
             (let creds = strings_Split (string_of plaintext) (CHR '':'') in
              case index creds 0 of
                Panics p \<Rightarrow> (f, Panics p)
              | Returns user \<Rightarrow>
                  (case index creds 1 of
                     Panics p \<Rightarrow> (f, Panics p)
                   | Returns pwd \<Rightarrow>
                       (let user_enclave = NewBufferFromBytes P (bytes_of user);
                            pwd_enclave = NewBufferFromBytes P (bytes_of pwd)
                        in (f\<lparr>Username := LockedBuffer_Seal P user_enclave,
                              Pwd := LockedBuffer_Seal P pwd_enclave\<rparr>, Returns None))))))"

definition ReconstructField ::
  "('h, 'b) prims \<Rightarrow> bytes \<Rightarrow> bytes \<Rightarrow> ('h Field option \<times> error option) outcome" where
  "ReconstructField P key compressed =
     (let field = \<lparr>Username = None, Pwd = None, AuthPair = compressed, DeniablePairs = []\<rparr> in
      case RederiveAuthPair P key field of
        (field', Panics p) \<Rightarrow> Panics p
      | (field', Returns (Some err)) \<Rightarrow> Returns (None, Some err)
      | (field', Returns None) \<Rightarrow> Returns (Some field', None))"

definition AddDeniableSecret ::
  "('h, 'b) prims \<Rightarrow> string \<Rightarrow> 'h option \<Rightarrow> 'h Field \<Rightarrow> 'h Field \<times> error option" where
  "AddDeniableSecret P username pwd f =
     (case Enclave_Open P pwd of
        Inl err \<Rightarrow> (f, Some err)
      | Inr clearpwd \<Rightarrow>
          (let secretstr = username @ '':'' @ string_of (LockedBuffer_Bytes P clearpwd) in
           (f\<lparr>DeniablePairs := DeniablePairs f @ [bytes_of secretstr]\<rparr>, None)))"

section \<open>Reading a handle, and the contracts of the primitives\<close>

text \<open>
  The cleartext behind an enclave pointer, read the way \<^verbatim>\<open>NewField\<close> and
  \<^verbatim>\<open>AddDeniableSecret\<close> read the password: \<^verbatim>\<open>Open()\<close>, then \<^verbatim>\<open>string(buf.Bytes())\<close>.
\<close>

definition opened :: "('h, 'b) prims \<Rightarrow> 'h option \<Rightarrow> error + string" where
  "opened P e = (case Enclave_Open P e of Inl err \<Rightarrow> Inl err
                 | Inr buf \<Rightarrow> Inr (string_of (LockedBuffer_Bytes P buf)))"

text \<open>
  The enclave sealed from the bytes of \<open>s\<close>, as the code builds it:
  \<^verbatim>\<open>memguard.NewBufferFromBytes([]byte(s)).Seal()\<close>.
\<close>

definition guarded :: "('h, 'b) prims \<Rightarrow> string \<Rightarrow> 'h option" where
  "guarded P s = LockedBuffer_Seal P (NewBufferFromBytes P (bytes_of s))"

text \<open>
  A small instance of the primitives, to run the model on: an enclave and a locked
  buffer are the string they hold, opening the nil pointer is an error, and the box
  puts the key in front of the text (a missing key is an error; a text that does
  not start with the key does not open).
\<close>

definition demo :: "(string, string) prims" where
  "demo = \<lparr>Enclave_Open = (\<lambda>e. case e of None \<Rightarrow> Inl (memguard_error ''nil enclave'') | Some s \<Rightarrow> Inr s),
           LockedBuffer_Bytes = Some,
           NewBufferFromBytes = string_of,
           LockedBuffer_Seal = Some,
           BoxEncrypt = (\<lambda>key text. case key of None \<Rightarrow> Inl (box_error ''no key'')
                           | Some k \<Rightarrow> Inr (Some (k @ string_of text))),
           BoxDecrypt = (\<lambda>key text.
                           if take (length (string_of key)) (string_of text) = string_of key
                           then Inr (Some (drop (length (string_of key)) (string_of text)))
                           else Inl (box_error ''authentication failed''))\<rparr>"

text \<open>
  A second instance, with the same box. It differs where memguard does: a buffer made
  from no bytes is a null buffer, and sealing it gives the nil pointer, not an enclave.
\<close>

definition null_seal :: "(string, string) prims" where
  "null_seal = demo\<lparr>LockedBuffer_Seal := (\<lambda>s. if s = [] then None else Some s)\<rparr>"

text \<open>
  \<open>c\<close> is a blob, not the nil slice, that \<^verbatim>\<open>BoxDecrypt\<close> opens under \<open>key\<close> to the text \<open>m\<close>.
\<close>

definition box_opens :: "('h, 'b) prims \<Rightarrow> bytes \<Rightarrow> bytes \<Rightarrow> string \<Rightarrow> bool" where
  "box_opens P key c m =
     (c \<noteq> None \<and> (case BoxDecrypt P key c of Inl err \<Rightarrow> False | Inr m' \<Rightarrow> string_of m' = m))"

section \<open>Splitting\<close>








section \<open>What RederiveAuthPair does, by the number of pieces\<close>


lemma RederiveAuthPair_one_piece:
  assumes "AuthPair f \<noteq> None" and "BoxDecrypt P key (AuthPair f) = Inr m"
    and "strings_Split (string_of m) (CHR '':'') = [a]"
  shows "RederiveAuthPair P key f = (f, Panics (index_out_of_range 1 1))"
  using assms by (simp add: RederiveAuthPair_def index_def)

section \<open>The instance\<close>

lemma demo_simps:
  "Enclave_Open demo None = Inl (memguard_error ''nil enclave'')"
  "Enclave_Open demo (Some s) = Inr s"
  "LockedBuffer_Bytes demo s = Some s"
  "NewBufferFromBytes demo b = string_of b"
  "LockedBuffer_Seal demo s = Some s"
  "BoxEncrypt demo None text = Inl (box_error ''no key'')"
  "BoxEncrypt demo (Some k) text = Inr (Some (k @ string_of text))"
  "BoxDecrypt demo key text =
     (if take (length (string_of key)) (string_of text) = string_of key
      then Inr (Some (drop (length (string_of key)) (string_of text)))
      else Inl (box_error ''authentication failed''))"
  by (simp_all add: demo_def)

lemma string_of_simps: "string_of None = []" "string_of (Some s) = s"
  by (simp_all add: string_of_def)

lemma null_seal_simps:
  "Enclave_Open null_seal None = Inl (memguard_error ''nil enclave'')"
  "Enclave_Open null_seal (Some s) = Inr s"
  "LockedBuffer_Bytes null_seal s = Some s"
  "NewBufferFromBytes null_seal b = string_of b"
  "LockedBuffer_Seal null_seal s = (if s = [] then None else Some s)"
  "BoxEncrypt null_seal key text = BoxEncrypt demo key text"
  "BoxDecrypt null_seal key text = BoxDecrypt demo key text"
  by (simp_all add: null_seal_def demo_def)


lemma null_seal_box_contract:
  "\<forall>m c. BoxEncrypt null_seal (Some k) (bytes_of m) = Inr c \<longrightarrow> box_opens null_seal (Some k) c m"
  by (auto simp: box_opens_def null_seal_simps demo_simps string_of_simps)

section \<open>Creating a field and reconstructing it\<close>




section \<open>Splitting the plaintext\<close>

text \<open>
  C2 (split at the first separator only). The code splits at every \<open>:\<close> and keeps the
  first two pieces, so the password it seals stops at the second \<open>:\<close>. A field created
  for \<open>alice\<close> with the password \<open>pa:ss\<close> seals the text \<open>alice:pa:ss\<close>; reconstructed
  under the same key, its password handle holds \<open>pa\<close>, not \<open>pa:ss\<close>.
\<close>

theorem password_cut_at_second_colon:
  "NewField demo (Some ''k'') ''alice'' (Some ''pa:ss'')
     = (Some \<lparr>Username = Some ''alice'', Pwd = Some ''pa:ss'', AuthPair = Some ''kalice:pa:ss'', DeniablePairs = []\<rparr>, None)
   \<and> BoxDecrypt demo (Some ''k'') (Some ''kalice:pa:ss'') = Inr (Some ''alice:pa:ss'')
   \<and> strings_Split ''alice:pa:ss'' (CHR '':'') = [''alice'', ''pa'', ''ss'']
   \<and> ReconstructField demo (Some ''k'') (Some ''kalice:pa:ss'')
     = Returns (Some \<lparr>Username = Some ''alice'', Pwd = Some ''pa'', AuthPair = Some ''kalice:pa:ss'', DeniablePairs = []\<rparr>, None)"
  by (simp add: NewField_def ReconstructField_def RederiveAuthPair_def index_def
      demo_simps string_of_simps)

text \<open>
  C3 (plaintext without a separator). When the box opens to a text with no \<open>:\<close>, the
  split has one piece and \<^verbatim>\<open>creds[1]\<close> is out of range: the call panics, it does not
  return an error. The field is as it was. Here the blob opens to \<open>abc\<close>.
\<close>

theorem plaintext_without_colon_panics:
  "BoxDecrypt demo (Some ''k'') (Some ''kabc'') = Inr (Some ''abc'')
   \<and> RederiveAuthPair demo (Some ''k'')
        \<lparr>Username = None, Pwd = None, AuthPair = Some ''kabc'', DeniablePairs = []\<rparr>
      = (\<lparr>Username = None, Pwd = None, AuthPair = Some ''kabc'', DeniablePairs = []\<rparr>,
         Panics (index_out_of_range 1 1))
   \<and> ReconstructField demo (Some ''k'') (Some ''kabc'') = Panics (index_out_of_range 1 1)"
  by (simp add: ReconstructField_def RederiveAuthPair_def index_def demo_simps string_of_simps)

section \<open>The guard on a missing secret\<close>

text \<open>
  C4 (missing secret), as the code has it. The guard is \<^verbatim>\<open>f.AuthPair == nil\<close>: for every
  key, reconstructing from the nil slice returns no field and the error
  \<^verbatim>\<open>No secret in field\<close>, whatever the primitives are, so the box is not consulted.
\<close>

theorem ReconstructField_nil_guard:
  "ReconstructField P key None = Returns (None, Some (errors_New ''No secret in field''))"
  by (simp add: ReconstructField_def RederiveAuthPair_def)

text \<open>
  The empty slice that is not nil, \<^verbatim>\<open>[]byte{}\<close>, is an empty byte sequence too, and it
  passes the guard: the box is asked to open it, and under the key \<open>k\<close> the error of the
  box comes back, not the no-secret error.
\<close>

theorem ReconstructField_empty_slice_counterexample:
  "ReconstructField demo (Some ''k'') (Some []) = Returns (None, Some (box_error ''authentication failed''))
   \<and> ReconstructField demo (Some ''k'') (Some []) \<noteq> Returns (None, Some (errors_New ''No secret in field''))"
  by (simp add: ReconstructField_def RederiveAuthPair_def demo_simps string_of_simps)

section \<open>Errors leave the field alone\<close>

text \<open>
  C5 (atomicity on failure). Whenever one of the four operations returns an error, the
  field is what it was: \<^verbatim>\<open>RederiveAuthPair\<close> and \<^verbatim>\<open>AddDeniableSecret\<close> leave the field of
  their receiver unchanged in every component, and \<^verbatim>\<open>NewField\<close> and \<^verbatim>\<open>ReconstructField\<close>
  return the nil pointer with the error, so no field at all.
\<close>

theorem error_leaves_field_untouched:
  "(RederiveAuthPair P key f = (f1, Returns (Some e1)) \<longrightarrow> f1 = f)
   \<and> (AddDeniableSecret P u pwd f = (f2, Some e2) \<longrightarrow> f2 = f)
   \<and> (NewField P key u pwd = (r3, Some e3) \<longrightarrow> r3 = None)
   \<and> (ReconstructField P key c = Returns (r4, Some e4) \<longrightarrow> r4 = None)"
proof (intro conjI impI)
  assume "RederiveAuthPair P key f = (f1, Returns (Some e1))"
  then show "f1 = f"
    by (auto simp: RederiveAuthPair_def Let_def split: if_splits sum.splits outcome.splits)
next
  assume "AddDeniableSecret P u pwd f = (f2, Some e2)"
  then show "f2 = f"
    by (auto simp: AddDeniableSecret_def Let_def split: sum.splits)
next
  assume "NewField P key u pwd = (r3, Some e3)"
  then show "r3 = None"
    by (auto simp: NewField_def Let_def split: sum.splits)
next
  assume "ReconstructField P key c = Returns (r4, Some e4)"
  then show "r4 = None"
    by (auto simp: ReconstructField_def Let_def split: prod.splits outcome.splits option.splits)
qed

text \<open>
  Four calls that return an error: a blob sealed under another key, the nil pointer as
  password (twice), and the nil slice to reconstruct from.
\<close>

theorem error_leaves_field_untouched_witness:
  "RederiveAuthPair demo (Some ''k'')
       \<lparr>Username = Some ''u'', Pwd = Some ''p'', AuthPair = Some ''xu:p'', DeniablePairs = [Some ''a:b'']\<rparr>
     = (\<lparr>Username = Some ''u'', Pwd = Some ''p'', AuthPair = Some ''xu:p'', DeniablePairs = [Some ''a:b'']\<rparr>,
        Returns (Some (box_error ''authentication failed'')))
   \<and> AddDeniableSecret demo ''bob'' None
       \<lparr>Username = Some ''u'', Pwd = Some ''p'', AuthPair = Some ''xu:p'', DeniablePairs = [Some ''a:b'']\<rparr>
     = (\<lparr>Username = Some ''u'', Pwd = Some ''p'', AuthPair = Some ''xu:p'', DeniablePairs = [Some ''a:b'']\<rparr>,
        Some (memguard_error ''nil enclave''))
   \<and> NewField demo (Some ''k'') ''bob'' None = (None, Some (memguard_error ''nil enclave''))
   \<and> ReconstructField demo (Some ''k'') None = Returns (None, Some (errors_New ''No secret in field''))"
proof -
  let ?f = "\<lparr>Username = Some ''u'', Pwd = Some ''p'', AuthPair = Some ''xu:p'', DeniablePairs = [Some ''a:b'']\<rparr> :: string Field"
  have h1: "\<exists>f1. RederiveAuthPair demo (Some ''k'') ?f = (f1, Returns (Some (box_error ''authentication failed'')))"
    by (simp add: RederiveAuthPair_def demo_simps string_of_simps)
  have h2: "\<exists>f2. AddDeniableSecret demo ''bob'' None ?f = (f2, Some (memguard_error ''nil enclave''))"
    by (simp add: AddDeniableSecret_def demo_simps)
  have h3: "\<exists>r3. NewField demo (Some ''k'') ''bob'' None = (r3, Some (memguard_error ''nil enclave''))"
    by (simp add: NewField_def demo_simps)
  have h4: "\<exists>r4. ReconstructField demo (Some ''k'') None = Returns (r4, Some (errors_New ''No secret in field''))"
    by (simp add: ReconstructField_def RederiveAuthPair_def)
  from h1 obtain f1 where f1: "RederiveAuthPair demo (Some ''k'') ?f = (f1, Returns (Some (box_error ''authentication failed'')))" ..
  from h2 obtain f2 where f2: "AddDeniableSecret demo ''bob'' None ?f = (f2, Some (memguard_error ''nil enclave''))" ..
  from h3 obtain r3 where r3: "NewField demo (Some ''k'') ''bob'' None = (r3, Some (memguard_error ''nil enclave''))" ..
  from h4 obtain r4 where r4: "ReconstructField demo (Some ''k'') None = Returns (r4, Some (errors_New ''No secret in field''))" ..
  from error_leaves_field_untouched [of demo "Some ''k''" ?f f1 "box_error ''authentication failed''"
      "''bob''" None f2 "memguard_error ''nil enclave''" r3 "memguard_error ''nil enclave''"
      None r4 "errors_New ''No secret in field''"] f1 f2 r3 r4
  have "f1 = ?f" and "f2 = ?f" and "r3 = None" and "r4 = None" by blast+
  with f1 f2 r3 r4 show ?thesis by simp
qed

section \<open>What NewField returns\<close>

text \<open>
  C6 (create postcondition). When the password handle \<open>pwd\<close> opens and the box seals the
  text \<open>u : cleartext\<close> under the key, \<^verbatim>\<open>NewField\<close> returns a field and no error; the
  \<^verbatim>\<open>AuthPair\<close> of the field is the blob the box returned for that text, its password is
  the handle \<open>pwd\<close> itself, its username is the enclave sealed from the bytes of \<open>u\<close>, and
  it has no deniable pairs.
\<close>

theorem NewField_postcondition:
  assumes "Enclave_Open P pwd = Inr clearpwd"
    and "BoxEncrypt P key (bytes_of (u @ '':'' @ string_of (LockedBuffer_Bytes P clearpwd))) = Inr secret"
  shows "\<exists>f. NewField P key u pwd = (Some f, None)
           \<and> AuthPair f = secret \<and> Pwd f = pwd \<and> Username f = guarded P u \<and> DeniablePairs f = []"
  using assms by (simp add: NewField_def guarded_def)

text \<open>The field for \<open>alice\<close> and \<open>pass\<close> under the key \<open>k\<close>; its username opens to \<open>alice\<close>.\<close>

theorem NewField_postcondition_witness:
  "Enclave_Open demo (Some ''pass'') = Inr ''pass''
   \<and> BoxEncrypt demo (Some ''k'') (bytes_of (''alice'' @ '':'' @ string_of (LockedBuffer_Bytes demo ''pass'')))
       = Inr (Some ''kalice:pass'')
   \<and> (\<exists>f. NewField demo (Some ''k'') ''alice'' (Some ''pass'') = (Some f, None)
           \<and> AuthPair f = Some ''kalice:pass'' \<and> Pwd f = Some ''pass''
           \<and> Username f = guarded demo ''alice'' \<and> DeniablePairs f = [])
   \<and> opened demo (guarded demo ''alice'') = Inr ''alice''"
proof -
  have h1: "Enclave_Open demo (Some ''pass'') = Inr ''pass''"
    by (simp add: demo_simps)
  have h2: "BoxEncrypt demo (Some ''k'') (bytes_of (''alice'' @ '':'' @ string_of (LockedBuffer_Bytes demo ''pass'')))
              = Inr (Some ''kalice:pass'')"
    by (simp add: demo_simps string_of_simps)
  have h3: "opened demo (guarded demo ''alice'') = Inr ''alice''"
    by (simp add: opened_def guarded_def demo_simps string_of_simps)
  from NewField_postcondition [OF h1 h2] h1 h2 h3 show ?thesis by blast
qed



section \<open>Deniable pairs\<close>

text \<open>
  C7 (deniable append). When the password handle opens, \<^verbatim>\<open>AddDeniableSecret\<close> returns no
  error; the list of deniable pairs is one longer, its last entry is the bytes of
  \<open>u : cleartext\<close>, and the entries before it are those of the list as it was, in their
  order.
\<close>

theorem AddDeniableSecret_appends:
  assumes "Enclave_Open P pwd = Inr clearpwd"
  shows "\<exists>f'. AddDeniableSecret P u pwd f = (f', None)
           \<and> length (DeniablePairs f') = length (DeniablePairs f) + 1
           \<and> last (DeniablePairs f') = bytes_of (u @ '':'' @ string_of (LockedBuffer_Bytes P clearpwd))
           \<and> take (length (DeniablePairs f)) (DeniablePairs f') = DeniablePairs f
           \<and> DeniablePairs f' = DeniablePairs f @ [bytes_of (u @ '':'' @ string_of (LockedBuffer_Bytes P clearpwd))]"
  using assms by (simp add: AddDeniableSecret_def)

text \<open>Adding \<open>bob\<close> and \<open>decoy\<close> to a field that has one deniable pair.\<close>

theorem AddDeniableSecret_appends_witness:
  "Enclave_Open demo (Some ''decoy'') = Inr ''decoy''
   \<and> (\<exists>f'. AddDeniableSecret demo ''bob'' (Some ''decoy'')
              \<lparr>Username = Some ''u'', Pwd = Some ''p'', AuthPair = Some ''ku:p'', DeniablePairs = [Some ''a:b'']\<rparr> = (f', None)
           \<and> length (DeniablePairs f') = length [Some ''a:b''] + 1
           \<and> last (DeniablePairs f') = Some ''bob:decoy''
           \<and> take 1 (DeniablePairs f') = [Some ''a:b'']
           \<and> DeniablePairs f' = [Some ''a:b'', Some ''bob:decoy''])"
proof -
  have h: "Enclave_Open demo (Some ''decoy'') = Inr ''decoy''"
    by (simp add: demo_simps)
  from AddDeniableSecret_appends [OF h, of "''bob''"
      "\<lparr>Username = Some ''u'', Pwd = Some ''p'', AuthPair = Some ''ku:p'', DeniablePairs = [Some ''a:b'']\<rparr>"] h
  show ?thesis by (simp add: demo_simps string_of_simps)
qed

text \<open>
  C9 (frame of the deniable append). Whatever \<^verbatim>\<open>AddDeniableSecret\<close> returns, the
  \<^verbatim>\<open>AuthPair\<close>, the username handle and the password handle of the field are what they
  were, and the list of deniable pairs is either what it was or what it was with one
  entry appended.
\<close>

theorem AddDeniableSecret_frame:
  "AuthPair (fst (AddDeniableSecret P u pwd f)) = AuthPair f
   \<and> Username (fst (AddDeniableSecret P u pwd f)) = Username f
   \<and> Pwd (fst (AddDeniableSecret P u pwd f)) = Pwd f
   \<and> (DeniablePairs (fst (AddDeniableSecret P u pwd f)) = DeniablePairs f
      \<or> (\<exists>x. DeniablePairs (fst (AddDeniableSecret P u pwd f)) = DeniablePairs f @ [x]))"
  by (simp add: AddDeniableSecret_def split: sum.splits)

section \<open>The frame of RederiveAuthPair\<close>

text \<open>
  C8 (rederive frame). When \<^verbatim>\<open>RederiveAuthPair\<close> returns no error, the field had an
  \<^verbatim>\<open>AuthPair\<close>, and the field after the call is the field before it with a new username
  handle and a new password handle: the \<^verbatim>\<open>AuthPair\<close> and the deniable pairs are the same.
\<close>

theorem RederiveAuthPair_frame:
  assumes "RederiveAuthPair P key f = (f', Returns None)"
  shows "AuthPair f \<noteq> None \<and> f' = f\<lparr>Username := Username f', Pwd := Pwd f'\<rparr>
         \<and> AuthPair f' = AuthPair f \<and> DeniablePairs f' = DeniablePairs f"
  using assms
  by (auto simp: RederiveAuthPair_def Let_def split: if_splits sum.splits outcome.splits)

text \<open>A field with an old password handle and one deniable pair, rederived under \<open>k\<close>.\<close>

theorem RederiveAuthPair_frame_witness:
  "RederiveAuthPair demo (Some ''k'')
       \<lparr>Username = None, Pwd = Some ''old'', AuthPair = Some ''kalice:pass'', DeniablePairs = [Some ''a:b'']\<rparr>
     = (\<lparr>Username = Some ''alice'', Pwd = Some ''pass'', AuthPair = Some ''kalice:pass'', DeniablePairs = [Some ''a:b'']\<rparr>,
        Returns None)
   \<and> AuthPair \<lparr>Username = Some ''alice'', Pwd = Some ''pass'', AuthPair = Some ''kalice:pass'', DeniablePairs = [Some ''a:b'']\<rparr>
       = Some ''kalice:pass''
   \<and> DeniablePairs \<lparr>Username = Some ''alice'', Pwd = Some ''pass'', AuthPair = Some ''kalice:pass'', DeniablePairs = [Some ''a:b'']\<rparr>
       = [Some ''a:b'']"
proof -
  have h: "RederiveAuthPair demo (Some ''k'')
       \<lparr>Username = None, Pwd = Some ''old'', AuthPair = Some ''kalice:pass'', DeniablePairs = [Some ''a:b'']\<rparr>
     = (\<lparr>Username = Some ''alice'', Pwd = Some ''pass'', AuthPair = Some ''kalice:pass'', DeniablePairs = [Some ''a:b'']\<rparr>,
        Returns None)"
    by (simp add: RederiveAuthPair_def demo_simps string_of_simps index_def)
  from RederiveAuthPair_frame [OF h] h show ?thesis by simp
qed

end
